theory Spec2Isabelle
  imports Complex_Main
begin

section \<open>The risk worker (apps/workers/workers/risk\_worker.py)\<close>

text \<open>
  A shallow embedding of \<^verbatim>\<open>RiskWorker\<close>. Python floats are modelled as exact reals,
  Python ints as \<open>int\<close>, timestamps as seconds on the integer line. The worker's
  surroundings (the ClickHouse client, the Redis client, the NATS client, the logger and
  the clock) are the fields of one record \<open>world\<close>; every method takes the world and
  returns the new world together with either the raised exception (\<open>Inl\<close>) or the
  returned value (\<open>Inr\<close>). The clock is read once per request.
\<close>

subsection \<open>Values, exceptions and the world\<close>

datatype exn = ValueError string | RuntimeError string | OtherError string

fun exn_str :: "exn \<Rightarrow> string" where
  "exn_str (ValueError m) = m"
| "exn_str (RuntimeError m) = m"
| "exn_str (OtherError m) = m"

datatype log_entry = Info string | Warning string | Error string

text \<open>
  The dictionaries handed to \<^verbatim>\<open>json.dumps\<close> and to the message bus. \<open>JTime t\<close> stands
  for the ISO text of the instant \<open>t\<close>.
\<close>

datatype json =
    JNum real
  | JStr string
  | JTime int
  | JBool bool
  | JArr "json list"
  | JObj "(string \<times> json) list"

text \<open>The character \<^verbatim>\<open>'\<close> inside a text.\<close>

definition apostrophe :: string where
  "apostrophe = [CHR 0x27]"

text \<open>
  An element of a Redis list, as \<^verbatim>\<open>float(score)\<close> sees it: \<open>Num r\<close> is a text that
  \<^verbatim>\<open>float\<close> reads as the finite number \<open>r\<close>, \<open>Raw s\<close> is a text \<open>s\<close> that \<^verbatim>\<open>float\<close>
  rejects; the error shows the text between quotes (a text that needs no escape).
  Floats being reals here, the texts that \<^verbatim>\<open>float\<close> reads as \<^verbatim>\<open>nan\<close> or as an
  infinity have no counterpart: a history holding one is outside this model.
\<close>

datatype redis_entry = Num real | Raw string

fun float_of :: "redis_entry \<Rightarrow> exn + real" where
  "float_of (Num r) = Inr r"
| "float_of (Raw s) =
     Inl (ValueError (''could not convert string to float: '' @ apostrophe @ s @ apostrophe))"

text \<open>One row of the ClickHouse query: event type, count, first and last timestamp.\<close>

type_synonym row = "string \<times> int \<times> int \<times> int"

record world =
  clock :: int
  clickhouse_client :: "(string \<Rightarrow> string \<Rightarrow> int \<Rightarrow> exn + row list) option"
  redis_client :: bool
  redis_kv :: "string \<Rightarrow> (nat \<times> json) option"
  redis_zsets :: "string \<Rightarrow> string \<Rightarrow> real option"
  redis_lists :: "string \<Rightarrow> redis_entry list"
  nats_client :: bool
  published :: "(string \<times> json) list"
  logged :: "log_entry list"

definition days :: "int \<Rightarrow> int" where
  "days n = n * 86400"

subsection \<open>The data model\<close>

datatype risk_level = Low | Medium | High | Critical

fun level_name :: "risk_level \<Rightarrow> string" where
  "level_name Low = ''low''"
| "level_name Medium = ''medium''"
| "level_name High = ''high''"
| "level_name Critical = ''critical''"

datatype risk_trend = Improving | Stable | Declining

fun trend_name :: "risk_trend \<Rightarrow> string" where
  "trend_name Improving = ''improving''"
| "trend_name Stable = ''stable''"
| "trend_name Declining = ''declining''"

record RiskScore =
  user_id :: string
  org_id :: string
  overall_score :: real
  click_rate :: real
  report_rate :: real
  training_completion_rate :: real
  recent_incidents :: real
  risk_level :: risk_level
  last_updated :: int
  factors :: "(string \<times> real) list"

record CohortRisk =
  cohort_id :: string
  cohort_org_id :: string
  average_risk_score :: real
  high_risk_users :: nat
  total_users :: nat
  risk_trend :: risk_trend
  recommended_actions :: "string list"
  cohort_last_updated :: int

record metric =
  count :: int
  first_event :: int
  last_event :: int

subsection \<open>Constants of the worker\<close>

definition risk_weights :: "(string \<times> real) list" where
  "risk_weights =
     [(''click_rate'', 0.35),
      (''report_rate'', - 0.25),
      (''training_completion'', - 0.20),
      (''recent_incidents'', 0.15),
      (''time_to_report'', 0.10),
      (''repeat_offender'', 0.05)]"

fun risk_thresholds :: "risk_level \<Rightarrow> real" where
  "risk_thresholds Low = 25"
| "risk_thresholds Medium = 50"
| "risk_thresholds High = 75"
| "risk_thresholds Critical = 90"

definition TOPICS :: "(string \<times> string) list" where
  "TOPICS =
     [(''campaign_schedule'', ''campaign.schedule''),
      (''content_make'', ''content.make''),
      (''deliver_send'', ''deliver.send''),
      (''event_ingest'', ''event.ingest''),
      (''coach_send'', ''coach.send''),
      (''risk_update'', ''risk.update''),
      (''export_make'', ''export.make'')]"

text \<open>\<^verbatim>\<open>d.get(k, default)\<close> on a dictionary kept as an association list.\<close>

definition dict_get :: "(string \<times> 'a) list \<Rightarrow> string \<Rightarrow> 'a \<Rightarrow> 'a" where
  "dict_get d k dflt = (case map_of d k of None \<Rightarrow> dflt | Some v \<Rightarrow> v)"

subsection \<open>The scorer\<close>

text \<open>
  \<^verbatim>\<open>_calculate_weighted_risk_score\<close>: the loop over \<^verbatim>\<open>factors.items()\<close> is a left fold
  over the dictionary's items in insertion order.
\<close>

definition calculate_weighted_risk_score :: "(string \<times> real) list \<Rightarrow> real" where
  "calculate_weighted_risk_score fs =
     (let total_score =
            foldl (\<lambda>total (factor, v).
                     let weight = dict_get risk_weights factor 0;
                         normalized_value = min (max v 0) 100
                     in total + normalized_value * weight)
                  0 fs
      in min (max total_score 0) 100)"

definition determine_risk_level :: "real \<Rightarrow> risk_level" where
  "determine_risk_level score =
     (if score \<ge> risk_thresholds Critical then Critical
      else if score \<ge> risk_thresholds High then High
      else if score \<ge> risk_thresholds Medium then Medium
      else Low)"

subsection \<open>The factor calculator\<close>

text \<open>\<^verbatim>\<open>metrics.get(t, {}).get('count', 0)\<close>.\<close>

definition count_of :: "(string \<Rightarrow> metric option) \<Rightarrow> string \<Rightarrow> int" where
  "count_of metrics t = (case metrics t of None \<Rightarrow> 0 | Some m \<Rightarrow> count m)"

text \<open>
  \<^verbatim>\<open>_get_user_metrics\<close>. The client is fetched outside the \<^verbatim>\<open>try\<close>, so a missing
  client raises; a failing query is caught, logged, and answered by the empty dictionary.
\<close>

definition get_user_metrics ::
  "world \<Rightarrow> string \<Rightarrow> string \<Rightarrow> world \<times> (exn + (string \<Rightarrow> metric option))" where
  "get_user_metrics w uid oid =
     (case clickhouse_client w of
        None \<Rightarrow> (w, Inl (RuntimeError ''ClickHouse client not initialized''))
      | Some execute \<Rightarrow>
          (let start_date = clock w - days 90 in
           case execute uid oid start_date of
             Inl e \<Rightarrow>
               (w\<lparr>logged := logged w @ [Error (''Failed to get user metrics: '' @ exn_str e)]\<rparr>,
                Inr Map.empty)
           | Inr results \<Rightarrow>
               (w, Inr (foldl (\<lambda>metrics (event_type, c, fe, le).
                                 metrics(event_type \<mapsto>
                                   \<lparr>count = c, first_event = fe, last_event = le\<rparr>))
                              Map.empty results))))"

definition calculate_time_to_report :: "string \<Rightarrow> string \<Rightarrow> real" where
  "calculate_time_to_report uid oid = 50.0"

definition incident_types :: "string list" where
  "incident_types = [''email_clicked'', ''sms_clicked'', ''landing_form_submitted'']"

definition calculate_repeat_offender_score ::
  "string \<Rightarrow> string \<Rightarrow> (string \<Rightarrow> metric option) \<Rightarrow> real" where
  "calculate_repeat_offender_score uid oid metrics =
     (let total_incidents =
            foldl (\<lambda>total event_type.
                     case metrics event_type of
                       None \<Rightarrow> total
                     | Some m \<Rightarrow> total + count m)
                  0 incident_types
      in if total_incidents \<ge> 5 then 100.0
         else if total_incidents \<ge> 3 then 75.0
         else if total_incidents \<ge> 1 then 50.0
         else 0.0)"

definition calculate_risk_factors ::
  "world \<Rightarrow> string \<Rightarrow> string \<Rightarrow> (string \<Rightarrow> metric option) \<Rightarrow> (string \<times> real) list" where
  "calculate_risk_factors w uid oid metrics =
     (let total_sent = count_of metrics ''email_sent'' + count_of metrics ''sms_sent'';
          total_clicked = count_of metrics ''email_clicked'' + count_of metrics ''sms_clicked'';
          f_click = (if total_sent > 0 then real_of_int total_clicked / real_of_int total_sent * 100
                     else 0);
          total_reported = count_of metrics ''email_reported'' + count_of metrics ''sms_reported'';
          f_report = (if total_sent > 0
                      then real_of_int total_reported / real_of_int total_sent * 100 else 0);
          training_started = count_of metrics ''training_started'';
          training_completed = count_of metrics ''training_completed'';
          f_training = (if training_started > 0
                        then real_of_int training_completed / real_of_int training_started * 100
                        else 0);
          recent_cutoff = clock w - days 30;
          recent = foldl (\<lambda>n event_type.
                            case metrics event_type of
                              None \<Rightarrow> n
                            | Some m \<Rightarrow> if last_event m \<ge> recent_cutoff then n + count m else n)
                         0 incident_types
      in [(''click_rate'', f_click),
          (''report_rate'', f_report),
          (''training_completion'', f_training),
          (''recent_incidents'', real_of_int recent),
          (''time_to_report'', calculate_time_to_report uid oid),
          (''repeat_offender'', calculate_repeat_offender_score uid oid metrics)])"

subsection \<open>Recommendations\<close>

definition generate_user_recommendations :: "RiskScore \<Rightarrow> string list" where
  "generate_user_recommendations rs =
     (if click_rate rs > 20
      then [''Complete advanced phishing identification training''] else [])
     @ (if report_rate rs < 10
        then [''Learn how to properly report suspicious emails''] else [])
     @ (if training_completion_rate rs < 80
        then [''Complete pending security awareness training''] else [])
     @ (if recent_incidents rs > 2
        then [''Schedule one-on-one security coaching session''] else [])
     @ (if risk_level rs \<in> {High, Critical}
        then [''Mandatory security briefing with IT team''] else [])"

definition generate_cohort_recommendations ::
  "real \<Rightarrow> nat \<Rightarrow> nat \<Rightarrow> risk_trend \<Rightarrow> string list" where
  "generate_cohort_recommendations avg_risk high_risk total_n trend =
     (let high_risk_percentage = (if total_n > 0 then real high_risk / real total_n * 100 else 0)
      in (if high_risk_percentage > 25
          then [''Implement organization-wide security awareness campaign''] else [])
         @ (if avg_risk > 60 then [''Increase phishing simulation frequency''] else [])
         @ (if trend = Declining
            then [''Review and update security training content'',
                  ''Conduct security culture assessment''] else [])
         @ (if high_risk > 10
            then [''Create targeted training program for high-risk users''] else []))"

definition generate_manager_recommendations :: "RiskScore \<Rightarrow> string list" where
  "generate_manager_recommendations rs =
     [''User has '' @ level_name (risk_level rs) @ '' security risk level'',
      ''Consider additional security training'',
      ''Monitor for suspicious email activity'',
      ''Provide coaching on security best practices'',
      ''Review user'' @ apostrophe @ ''s access permissions if necessary'']"

subsection \<open>The stores and the message bus\<close>

text \<open>
  \<^verbatim>\<open>publish_message\<close> of shared/message\_bus.py: it raises when the client is missing;
  a connected client takes the message.
\<close>

definition publish_message :: "world \<Rightarrow> string \<Rightarrow> json \<Rightarrow> world \<times> (exn + unit)" where
  "publish_message w topic data =
     (if \<not> nats_client w then (w, Inl (RuntimeError ''NATS client not initialized''))
      else (w\<lparr>published := published w @ [(topic, data)]\<rparr>, Inr ()))"

definition store_user_risk_score :: "world \<Rightarrow> RiskScore \<Rightarrow> world \<times> (exn + unit)" where
  "store_user_risk_score w rs =
     (if \<not> redis_client w then (w, Inl (RuntimeError ''Redis client not initialized''))
      else
        (let risk_data = JObj
               [(''user_id'', JStr (user_id rs)),
                (''org_id'', JStr (org_id rs)),
                (''overall_score'', JNum (overall_score rs)),
                (''risk_level'', JStr (level_name (risk_level rs))),
                (''click_rate'', JNum (click_rate rs)),
                (''report_rate'', JNum (report_rate rs)),
                (''training_completion_rate'', JNum (training_completion_rate rs)),
                (''recent_incidents'', JNum (recent_incidents rs)),
                (''last_updated'', JTime (last_updated rs)),
                (''factors'', JObj (map (\<lambda>(k, v). (k, JNum v)) (factors rs)))];
             key = ''user_risk:'' @ user_id rs;
             zkey = ''org_risk_scores:'' @ org_id rs
         in (w\<lparr>redis_kv := (redis_kv w)(key \<mapsto> (86400, risk_data)),
               redis_zsets := (redis_zsets w)
                  (zkey := (redis_zsets w zkey)(user_id rs \<mapsto> overall_score rs))\<rparr>,
             Inr ())))"

definition store_cohort_risk :: "world \<Rightarrow> CohortRisk \<Rightarrow> world \<times> (exn + unit)" where
  "store_cohort_risk w c =
     (if \<not> redis_client w then (w, Inl (RuntimeError ''Redis client not initialized''))
      else
        (let cohort_data = JObj
               [(''cohort_id'', JStr (cohort_id c)),
                (''org_id'', JStr (cohort_org_id c)),
                (''average_risk_score'', JNum (average_risk_score c)),
                (''high_risk_users'', JNum (real (high_risk_users c))),
                (''total_users'', JNum (real (total_users c))),
                (''risk_trend'', JStr (trend_name (risk_trend c))),
                (''recommended_actions'', JArr (map JStr (recommended_actions c))),
                (''last_updated'', JTime (cohort_last_updated c))]
         in (w\<lparr>redis_kv := (redis_kv w)((''cohort_risk:'' @ cohort_id c) \<mapsto> (86400, cohort_data))\<rparr>,
             Inr ())))"

subsection \<open>The adaptive action dispatcher\<close>

text \<open>
  \<^verbatim>\<open>_execute_adaptive_action\<close>: an \<^verbatim>\<open>if/elif\<close> chain over the action's name with no
  final \<^verbatim>\<open>else\<close>; whatever the branch, the info line is logged when nothing raised.
\<close>

definition execute_adaptive_action :: "world \<Rightarrow> RiskScore \<Rightarrow> string \<Rightarrow> world \<times> (exn + unit)" where
  "execute_adaptive_action w rs action =
     (let action_data = JObj
            [(''type'', JStr ''adaptive_action''),
             (''action'', JStr action),
             (''user_id'', JStr (user_id rs)),
             (''org_id'', JStr (org_id rs)),
             (''risk_score'', JNum (overall_score rs)),
             (''risk_level'', JStr (level_name (risk_level rs))),
             (''timestamp'', JTime (clock w))];
          done_line = Info (''Executed adaptive action '' @ apostrophe @ action @ apostrophe
                            @ '' for user '' @ user_id rs);
          (w1, r) =
            (if action = ''immediate_additional_training'' then
               publish_message w (dict_get TOPICS ''coach_send'' [])
                 (JObj [(''type'', JStr ''assign_urgent_training''),
                        (''user_id'', JStr (user_id rs)),
                        (''training_modules'',
                           JArr [JStr ''advanced_phishing_detection'', JStr ''incident_response'']),
                        (''priority'', JStr ''high'')])
             else if action = ''manager_notification'' then
               publish_message w ''notifications.manager''
                 (JObj [(''type'', JStr ''high_risk_user_alert''),
                        (''user_id'', JStr (user_id rs)),
                        (''risk_level'', JStr (level_name (risk_level rs))),
                        (''recommended_actions'',
                           JArr (map JStr (generate_manager_recommendations rs)))])
             else if action = ''enhanced_monitoring'' then
               (if \<not> redis_client w
                then (w, Inl (RuntimeError ''Redis client not initialized''))
                else (w\<lparr>redis_kv := (redis_kv w)
                          ((''enhanced_monitoring:'' @ user_id rs) \<mapsto> (604800, action_data))\<rparr>,
                      Inr ()))
             else (w, Inr ()))
      in case r of
           Inl e \<Rightarrow> (w1, Inl e)
         | Inr _ \<Rightarrow> (w1\<lparr>logged := logged w1 @ [done_line]\<rparr>, Inr ()))"

text \<open>The loop \<^verbatim>\<open>for action in actions\<close>: the first exception ends it.\<close>

fun execute_all :: "world \<Rightarrow> RiskScore \<Rightarrow> string list \<Rightarrow> world \<times> (exn + unit)" where
  "execute_all w rs [] = (w, Inr ())"
| "execute_all w rs (action # actions) =
     (case execute_adaptive_action w rs action of
        (w1, Inl e) \<Rightarrow> (w1, Inl e)
      | (w1, Inr _) \<Rightarrow> execute_all w1 rs actions)"

definition trigger_adaptive_actions :: "world \<Rightarrow> RiskScore \<Rightarrow> world \<times> (exn + unit)" where
  "trigger_adaptive_actions w rs =
     (let actions =
            (if risk_level rs = Critical then
               [''immediate_additional_training'',
                ''manager_notification'',
                ''enhanced_monitoring'',
                ''mandatory_security_briefing'']
             else if risk_level rs = High then
               [''additional_training'',
                ''increased_simulation_frequency'',
                ''coaching_session'']
             else [])
      in execute_all w rs actions)"

subsection \<open>User risk\<close>

record user_request =
  req_user_id :: "string option"
  req_org_id :: "string option"

record user_response =
  resp_user_id :: string
  resp_risk_score :: real
  resp_risk_level :: risk_level
  resp_factors :: "(string \<times> real) list"
  resp_recommendations :: "string list"

text \<open>\<^verbatim>\<open>not x\<close> for an optional string: absent, \<^verbatim>\<open>None\<close> or empty.\<close>

fun falsy :: "string option \<Rightarrow> bool" where
  "falsy None = True"
| "falsy (Some s) = (s = [])"

definition calculate_user_risk ::
  "world \<Rightarrow> user_request \<Rightarrow> world \<times> (exn + user_response)" where
  "calculate_user_risk w data =
     (if falsy (req_user_id data) \<or> falsy (req_org_id data)
      then (w, Inl (ValueError ''user_id and org_id are required''))
      else
        (let uid = the (req_user_id data); oid = the (req_org_id data) in
         case get_user_metrics w uid oid of
           (w1, Inl e) \<Rightarrow> (w1, Inl e)
         | (w1, Inr user_metrics) \<Rightarrow>
             (let risk_factors = calculate_risk_factors w1 uid oid user_metrics;
                  score = calculate_weighted_risk_score risk_factors;
                  level = determine_risk_level score;
                  risk_score =
                    \<lparr>user_id = uid, org_id = oid, overall_score = score,
                     click_rate = dict_get risk_factors ''click_rate'' 0,
                     report_rate = dict_get risk_factors ''report_rate'' 0,
                     training_completion_rate = dict_get risk_factors ''training_completion'' 0,
                     recent_incidents = dict_get risk_factors ''recent_incidents'' 0,
                     risk_level = level,
                     last_updated = clock w1,
                     factors = risk_factors\<rparr>
              in case store_user_risk_score w1 risk_score of
                   (w2, Inl e) \<Rightarrow> (w2, Inl e)
                 | (w2, Inr _) \<Rightarrow>
                     (case (if level \<in> {High, Critical}
                            then trigger_adaptive_actions w2 risk_score
                            else (w2, Inr ())) of
                        (w3, Inl e) \<Rightarrow> (w3, Inl e)
                      | (w3, Inr _) \<Rightarrow>
                          (w3, Inr \<lparr>resp_user_id = uid,
                                    resp_risk_score = score,
                                    resp_risk_level = level,
                                    resp_factors = risk_factors,
                                    resp_recommendations =
                                      generate_user_recommendations risk_score\<rparr>)))))"

subsection \<open>Cohort risk\<close>

record cohort_request =
  req_cohort_id :: "string option"
  req_cohort_org_id :: "string option"
  req_user_ids :: "string list"

record cohort_result =
  res_cohort_id :: string
  res_average_risk_score :: real
  res_high_risk_users :: nat
  res_total_users :: nat
  res_risk_trend :: risk_trend
  res_recommendations :: "string list"

text \<open>The returned dictionary: \<^verbatim>\<open>success\<close> false with an error text, or true with the result.\<close>

datatype cohort_response = Failure string | Success cohort_result

text \<open>\<^verbatim>\<open>redis.lrange(key, 0, 4)\<close>: the first five elements of the list, none for a missing key.\<close>

definition lrange_0_4 :: "world \<Rightarrow> string \<Rightarrow> redis_entry list" where
  "lrange_0_4 w key = take 5 (redis_lists w key)"

text \<open>\<^verbatim>\<open>[float(score) for score in history]\<close>: the first entry that is no number raises.\<close>

fun floats :: "redis_entry list \<Rightarrow> exn + real list" where
  "floats [] = Inr []"
| "floats (x # xs) =
     (case float_of x of
        Inl e \<Rightarrow> Inl e
      | Inr r \<Rightarrow> (case floats xs of Inl e \<Rightarrow> Inl e | Inr rs \<Rightarrow> Inr (r # rs)))"

definition calculate_risk_trend ::
  "world \<Rightarrow> string \<Rightarrow> string \<Rightarrow> real \<Rightarrow> world \<times> (exn + risk_trend)" where
  "calculate_risk_trend w cid oid current_avg =
     (if \<not> redis_client w then (w, Inl (RuntimeError ''Redis client not initialized''))
      else
        (let historical_key = ''cohort_risk_history:'' @ cid;
             history = lrange_0_4 w historical_key
         in if length history < 2 then (w, Inr Stable)
            else
              (case floats history of
                 Inl e \<Rightarrow> (w, Inl e)
               | Inr hs \<Rightarrow>
                   (let scores = hs @ [current_avg] in
                    if length scores \<ge> 3 then
                      (let recent_trend =
                             scores ! (length scores - 1) - scores ! (length scores - 3)
                       in if recent_trend < - 5 then (w, Inr Improving)
                          else if recent_trend > 5 then (w, Inr Declining)
                          else (w, Inr Stable))
                    else (w, Inr Stable)))))"

text \<open>
  The loop of \<^verbatim>\<open>calculate_cohort_risk\<close> over \<^verbatim>\<open>user_ids\<close>: a user whose calculation
  raises is logged and left out, the others' scores are appended in order.
\<close>

fun collect_user_risk_scores ::
  "world \<Rightarrow> string option \<Rightarrow> string list \<Rightarrow> real list \<Rightarrow> world \<times> real list" where
  "collect_user_risk_scores w oid [] user_risk_scores = (w, user_risk_scores)"
| "collect_user_risk_scores w oid (u # us) user_risk_scores =
     (case calculate_user_risk w \<lparr>req_user_id = Some u, req_org_id = oid\<rparr> of
        (w1, Inl e) \<Rightarrow>
          collect_user_risk_scores
            (w1\<lparr>logged := logged w1 @
                   [Warning (''Failed to calculate risk for user '' @ u @ '': '' @ exn_str e)]\<rparr>)
            oid us user_risk_scores
      | (w1, Inr user_risk) \<Rightarrow>
          collect_user_risk_scores w1 oid us (user_risk_scores @ [resp_risk_score user_risk]))"

text \<open>\<^verbatim>\<open>statistics.mean\<close> on a list the caller has checked to be non-empty.\<close>

definition mean :: "real list \<Rightarrow> real" where
  "mean xs = sum_list xs / real (length xs)"

definition calculate_cohort_risk ::
  "world \<Rightarrow> cohort_request \<Rightarrow> world \<times> (exn + cohort_response)" where
  "calculate_cohort_risk w data =
     (if falsy (req_cohort_id data) \<or> falsy (req_cohort_org_id data)
      then (w, Inl (ValueError ''cohort_id and org_id are required''))
      else
        (let cid = the (req_cohort_id data); oid = the (req_cohort_org_id data);
             user_ids = req_user_ids data;
             (w1, user_risk_scores) = collect_user_risk_scores w (Some oid) user_ids []
         in if user_risk_scores = []
            then (w1, Inr (Failure ''No valid user risk scores calculated''))
            else
              (let average_risk = mean user_risk_scores;
                   high = length (filter (\<lambda>score. score \<ge> risk_thresholds High) user_risk_scores)
               in case calculate_risk_trend w1 cid oid average_risk of
                    (w2, Inl e) \<Rightarrow> (w2, Inl e)
                  | (w2, Inr trend) \<Rightarrow>
                      (let recommendations =
                             generate_cohort_recommendations average_risk high (length user_ids) trend;
                           cohort_risk =
                             \<lparr>cohort_id = cid, cohort_org_id = oid,
                              average_risk_score = average_risk,
                              high_risk_users = high,
                              total_users = length user_ids,
                              risk_trend = trend,
                              recommended_actions = recommendations,
                              cohort_last_updated = clock w2\<rparr>
                       in case store_cohort_risk w2 cohort_risk of
                            (w3, Inl e) \<Rightarrow> (w3, Inl e)
                          | (w3, Inr _) \<Rightarrow>
                              (w3, Inr (Success
                                 \<lparr>res_cohort_id = cid,
                                  res_average_risk_score = average_risk,
                                  res_high_risk_users = high,
                                  res_total_users = length user_ids,
                                  res_risk_trend = trend,
                                  res_recommendations = recommendations\<rparr>))))))"

subsection \<open>Example inputs\<close>

text \<open>The factor map of the weighted-sum example.\<close>

definition example_factors :: "(string \<times> real) list" where
  "example_factors =
     [(''click_rate'', 100), (''report_rate'', 0), (''training_completion'', 0),
      (''recent_incidents'', 0), (''time_to_report'', 0), (''repeat_offender'', 0)]"

text \<open>
  A world on day 100 with every client connected, empty stores and an event store that
  knows no event of anybody.
\<close>

definition example_world :: world where
  "example_world =
     \<lparr>clock = days 100,
      clickhouse_client = Some (\<lambda>uid oid start_date. Inr []),
      redis_client = True,
      redis_kv = Map.empty,
      redis_zsets = (\<lambda>key. Map.empty),
      redis_lists = (\<lambda>key. []),
      nats_client = True,
      published = [],
      logged = []\<rparr>"

text \<open>A \<^verbatim>\<open>RiskScore\<close> object of level \<^verbatim>\<open>high\<close>, and one of level \<^verbatim>\<open>critical\<close>.\<close>

definition example_high :: RiskScore where
  "example_high =
     \<lparr>user_id = ''u1'', org_id = ''o1'', overall_score = 80,
      click_rate = 100, report_rate = 0, training_completion_rate = 0,
      recent_incidents = 4, risk_level = High, last_updated = days 100,
      factors = []\<rparr>"

definition example_critical :: RiskScore where
  "example_critical =
     \<lparr>user_id = ''u1'', org_id = ''o1'', overall_score = 95,
      click_rate = 100, report_rate = 0, training_completion_rate = 0,
      recent_incidents = 9, risk_level = Critical, last_updated = days 100,
      factors = []\<rparr>"

text \<open>The example world with a trend history stored for the cohort \<^verbatim>\<open>c1\<close>.\<close>

definition world_with_history :: "redis_entry list \<Rightarrow> world" where
  "world_with_history h =
     example_world\<lparr>redis_lists := (\<lambda>key. if key = ''cohort_risk_history:c1'' then h else [])\<rparr>"

subsection \<open>Notions used in the statements\<close>

text \<open>
  \<open>kept w w'\<close>: the world \<open>w'\<close> differs from \<open>w\<close> at most in the key-value entries and
  sorted sets of Redis and in the log. The clock, the three clients, the Redis lists and
  the published messages are the same.
\<close>

definition kept :: "world \<Rightarrow> world \<Rightarrow> bool" where
  "kept w w' \<longleftrightarrow>
     clock w' = clock w \<and> clickhouse_client w' = clickhouse_client w
     \<and> redis_client w' = redis_client w \<and> nats_client w' = nats_client w
     \<and> redis_lists w' = redis_lists w \<and> published w' = published w"

text \<open>
  The score that \<^verbatim>\<open>calculate_user_risk\<close> returns for the user \<open>u\<close> in the world \<open>w\<close>,
  and \<open>None\<close> when that calculation raises.
\<close>

definition user_score :: "world \<Rightarrow> string option \<Rightarrow> string \<Rightarrow> real option" where
  "user_score w oid u =
     (case snd (calculate_user_risk w \<lparr>req_user_id = Some u, req_org_id = oid\<rparr>) of
        Inl e \<Rightarrow> None
      | Inr r \<Rightarrow> Some (resp_risk_score r))"

text \<open>
  The \<^verbatim>\<open>RiskScore\<close> object that \<^verbatim>\<open>calculate_user_risk\<close> builds from the metrics, and
  the dictionary it returns for that object; \<open>calculate_user_risk_stored\<close> below relates
  both to the function.
\<close>

definition risk_score_object ::
  "world \<Rightarrow> string \<Rightarrow> string \<Rightarrow> (string \<Rightarrow> metric option) \<Rightarrow> RiskScore" where
  "risk_score_object w uid oid m =
     (let risk_factors = calculate_risk_factors w uid oid m;
          score = calculate_weighted_risk_score risk_factors
      in \<lparr>user_id = uid, org_id = oid, overall_score = score,
          click_rate = dict_get risk_factors ''click_rate'' 0,
          report_rate = dict_get risk_factors ''report_rate'' 0,
          training_completion_rate = dict_get risk_factors ''training_completion'' 0,
          recent_incidents = dict_get risk_factors ''recent_incidents'' 0,
          risk_level = determine_risk_level score,
          last_updated = clock w,
          factors = risk_factors\<rparr>)"

definition response_of :: "RiskScore \<Rightarrow> user_response" where
  "response_of rs =
     \<lparr>resp_user_id = user_id rs,
      resp_risk_score = overall_score rs,
      resp_risk_level = risk_level rs,
      resp_factors = factors rs,
      resp_recommendations = generate_user_recommendations rs\<rparr>"

text \<open>A stored dictionary without its \<^verbatim>\<open>last_updated\<close> entry.\<close>

fun without_last_updated :: "json \<Rightarrow> json" where
  "without_last_updated (JObj kvs) = JObj (filter (\<lambda>(k, v). k \<noteq> ''last_updated'') kvs)"
| "without_last_updated j = j"

subsection \<open>More example inputs\<close>

text \<open>The request for user \<^verbatim>\<open>u1\<close> of organisation \<^verbatim>\<open>o1\<close>.\<close>

definition request_u1 :: user_request where
  "request_u1 = \<lparr>req_user_id = Some ''u1'', req_org_id = Some ''o1''\<rparr>"

text \<open>The example world with an event store whose every query fails.\<close>

definition world_query_fails :: world where
  "world_query_fails =
     example_world\<lparr>clickhouse_client :=
        Some (\<lambda>uid oid start_date. Inl (OtherError ''connection refused''))\<rparr>"

text \<open>
  The example world on the given day, with an event store that holds one clicked email
  of day 75 for everybody; \<open>clicked_metrics\<close> is the dictionary built from that row.
\<close>

definition world_clicked :: "int \<Rightarrow> world" where
  "world_clicked today =
     example_world\<lparr>clock := days today,
        clickhouse_client :=
          Some (\<lambda>uid oid start_date. Inr [(''email_clicked'', 1, days 75, days 75)])\<rparr>"

definition clicked_metrics :: "string \<Rightarrow> metric option" where
  "clicked_metrics =
     [''email_clicked'' \<mapsto> \<lparr>count = 1, first_event = days 75, last_event = days 75\<rparr>]"

text \<open>The example world before the ClickHouse client is initialised.\<close>

definition world_without_clickhouse :: world where
  "world_without_clickhouse = example_world\<lparr>clickhouse_client := None\<rparr>"

text \<open>Two cohort requests: two users, and one user together with an empty user id.\<close>

definition cohort_two_users :: cohort_request where
  "cohort_two_users =
     \<lparr>req_cohort_id = Some ''c1'', req_cohort_org_id = Some ''o1'',
      req_user_ids = [''u1'', ''u2'']\<rparr>"

definition cohort_one_invalid :: cohort_request where
  "cohort_one_invalid =
     \<lparr>req_cohort_id = Some ''c1'', req_cohort_org_id = Some ''o1'',
      req_user_ids = [''u1'', []]\<rparr>"

section \<open>Properties\<close>

subsection \<open>The scorer\<close>

lemma score_of_six:
  "calculate_weighted_risk_score
     [(''click_rate'', a), (''report_rate'', b), (''training_completion'', c),
      (''recent_incidents'', d), (''time_to_report'', t), (''repeat_offender'', e)] =
   min (max (min (max a 0) 100 * 0.35 - min (max b 0) 100 * 0.25 - min (max c 0) 100 * 0.20
             + min (max d 0) 100 * 0.15 + min (max t 0) 100 * 0.10
             + min (max e 0) 100 * 0.05) 0) 100"
  by (simp add: calculate_weighted_risk_score_def dict_get_def risk_weights_def)

text \<open>
  C1, as the code has it. For the factor map \<open>example_factors\<close> (click rate 100, every
  other factor 0) the weighted score is 35, and the level of 35 is \<^verbatim>\<open>low\<close>: the
  \<^verbatim>\<open>medium\<close> level starts at 50.
\<close>

theorem example_score_35_low:
  "calculate_weighted_risk_score example_factors = 35
   \<and> determine_risk_level (calculate_weighted_risk_score example_factors) = Low"
  by (simp add: example_factors_def score_of_six determine_risk_level_def)

text \<open>C1 as stated (score 35 and level \<^verbatim>\<open>medium\<close>) does not hold.\<close>

theorem example_level_not_medium:
  "\<not> (calculate_weighted_risk_score example_factors = 35
      \<and> determine_risk_level (calculate_weighted_risk_score example_factors) = Medium)"
  by (simp add: example_factors_def score_of_six determine_risk_level_def)

text \<open>
  C7. Whatever the factor map (any names, any real values, in any order), the weighted
  score lies between 0 and 100.
\<close>

theorem weighted_score_in_range:
  "0 \<le> calculate_weighted_risk_score fs \<and> calculate_weighted_risk_score fs \<le> 100"
  by (simp add: calculate_weighted_risk_score_def Let_def)

subsection \<open>The dispatcher\<close>

lemma execute_unhandled:
  assumes "action \<noteq> ''immediate_additional_training''"
    and "action \<noteq> ''manager_notification''"
    and "action \<noteq> ''enhanced_monitoring''"
  shows "execute_adaptive_action w rs action =
     (w\<lparr>logged := logged w @
         [Info (''Executed adaptive action '' @ apostrophe @ action @ apostrophe
                @ '' for user '' @ user_id rs)]\<rparr>, Inr ())"
  using assms by (simp add: execute_adaptive_action_def Let_def)

text \<open>
  The dispatcher called on its own, which no calculation of this worker does (see
  \<open>user_risk_never_high\<close> below). For a \<^verbatim>\<open>RiskScore\<close> of level \<^verbatim>\<open>high\<close> it runs
  the three actions of that level, and none of them has a branch in
  \<^verbatim>\<open>_execute_adaptive_action\<close>: the world changes by three info lines in the log and
  nothing else. No message is published and no key is written.
\<close>

lemma high_actions_emit_nothing:
  assumes "risk_level rs = High"
  shows "trigger_adaptive_actions w rs =
     (w\<lparr>logged := logged w @
         [Info (''Executed adaptive action '' @ apostrophe @ ''additional_training'' @ apostrophe
                @ '' for user '' @ user_id rs),
          Info (''Executed adaptive action '' @ apostrophe @ ''increased_simulation_frequency''
                @ apostrophe @ '' for user '' @ user_id rs),
          Info (''Executed adaptive action '' @ apostrophe @ ''coaching_session'' @ apostrophe
                @ '' for user '' @ user_id rs)]\<rparr>, Inr ())"
  using assms by (simp add: trigger_adaptive_actions_def execute_unhandled)

lemma high_actions_emit_nothing_example:
  "risk_level example_high = High
   \<and> published (fst (trigger_adaptive_actions example_world example_high)) = []
   \<and> redis_kv (fst (trigger_adaptive_actions example_world example_high)) = Map.empty
   \<and> length (logged (fst (trigger_adaptive_actions example_world example_high))) = 3
   \<and> snd (trigger_adaptive_actions example_world example_high) = Inr ()"
proof -
  have h: "risk_level example_high = High"
    by (simp add: example_high_def)
  show ?thesis
    using h high_actions_emit_nothing [OF h, of example_world]
    by (simp add: example_world_def)
qed

text \<open>
  Called on its own for a \<^verbatim>\<open>RiskScore\<close> of level \<^verbatim>\<open>critical\<close>, with the
  message bus and Redis connected, the dispatcher runs the four actions of that level
  in order. Three of them have an effect: the urgent training is published on
  \<^verbatim>\<open>coach.send\<close>, the manager alert on \<^verbatim>\<open>notifications.manager\<close>, and the
  monitoring flag is set for seven days. The fourth, \<^verbatim>\<open>mandatory_security_briefing\<close>,
  has no branch in \<^verbatim>\<open>_execute_adaptive_action\<close>: it leaves an info line in the log
  and nothing else. The previous level is no input of the dispatcher.
\<close>

lemma critical_actions_effects:
  assumes "risk_level rs = Critical" and "nats_client w" and "redis_client w"
  shows "trigger_adaptive_actions w rs =
     (w\<lparr>published := published w @
          [(''coach.send'',
            JObj [(''type'', JStr ''assign_urgent_training''),
                  (''user_id'', JStr (user_id rs)),
                  (''training_modules'',
                     JArr [JStr ''advanced_phishing_detection'', JStr ''incident_response'']),
                  (''priority'', JStr ''high'')]),
           (''notifications.manager'',
            JObj [(''type'', JStr ''high_risk_user_alert''),
                  (''user_id'', JStr (user_id rs)),
                  (''risk_level'', JStr ''critical''),
                  (''recommended_actions'',
                     JArr (map JStr (generate_manager_recommendations rs)))])],
        redis_kv := (redis_kv w)
          ((''enhanced_monitoring:'' @ user_id rs) \<mapsto>
             (604800,
              JObj [(''type'', JStr ''adaptive_action''),
                    (''action'', JStr ''enhanced_monitoring''),
                    (''user_id'', JStr (user_id rs)),
                    (''org_id'', JStr (org_id rs)),
                    (''risk_score'', JNum (overall_score rs)),
                    (''risk_level'', JStr ''critical''),
                    (''timestamp'', JTime (clock w))])),
        logged := logged w @
          [Info (''Executed adaptive action '' @ apostrophe @ ''immediate_additional_training''
                 @ apostrophe @ '' for user '' @ user_id rs),
           Info (''Executed adaptive action '' @ apostrophe @ ''manager_notification''
                 @ apostrophe @ '' for user '' @ user_id rs),
           Info (''Executed adaptive action '' @ apostrophe @ ''enhanced_monitoring''
                 @ apostrophe @ '' for user '' @ user_id rs),
           Info (''Executed adaptive action '' @ apostrophe @ ''mandatory_security_briefing''
                 @ apostrophe @ '' for user '' @ user_id rs)]\<rparr>,
      Inr ())"
  using assms
  by (simp add: trigger_adaptive_actions_def execute_adaptive_action_def publish_message_def
       Let_def dict_get_def TOPICS_def)

lemma critical_actions_effects_example:
  "risk_level example_critical = Critical \<and> nats_client example_world \<and> redis_client example_world
   \<and> map fst (published (fst (trigger_adaptive_actions example_world example_critical)))
       = [''coach.send'', ''notifications.manager'']
   \<and> dom (redis_kv (fst (trigger_adaptive_actions example_world example_critical)))
       = {''enhanced_monitoring:u1''}
   \<and> length (logged (fst (trigger_adaptive_actions example_world example_critical))) = 4"
proof -
  have h: "risk_level example_critical = Critical" "nats_client example_world"
    "redis_client example_world"
    by (simp_all add: example_critical_def example_world_def)
  show ?thesis
    using h critical_actions_effects [OF h]
    by (simp add: example_world_def example_critical_def)
qed

subsection \<open>The trend of a cohort\<close>

lemma floats_Num: "floats (map Num hs) = Inr hs"
  by (induction hs) simp_all

text \<open>
  C5, as the code has it. Let \<open>hs\<close> be the numbers that \<^verbatim>\<open>lrange(key, 0, 4)\<close> reads
  from the cohort's history. With fewer than two of them the trend is \<^verbatim>\<open>stable\<close>.
  Otherwise the current average is appended and compared with the element two steps
  before it in the appended list, which is the second to last element of the history
  read (\<^verbatim>\<open>history[-2]\<close>, not \<^verbatim>\<open>history[-3]\<close>): a decrease of more than 5 is
  \<^verbatim>\<open>improving\<close>, an increase of more than 5 is \<^verbatim>\<open>declining\<close>, anything else is
  \<^verbatim>\<open>stable\<close>.
\<close>

theorem trend_compares_second_to_last:
  assumes "redis_client w"
    and "lrange_0_4 w (''cohort_risk_history:'' @ cid) = map Num hs"
  shows "snd (calculate_risk_trend w cid oid current_avg) =
     Inr (if length hs < 2 then Stable
          else if current_avg - hs ! (length hs - 2) < - 5 then Improving
          else if current_avg - hs ! (length hs - 2) > 5 then Declining
          else Stable)"
proof (cases "length hs < 2")
  case True
  with assms show ?thesis
    by (simp add: calculate_risk_trend_def Let_def)
next
  case False
  then have "length hs - 2 < length hs"
    by arith
  then have nth: "(hs @ [current_avg]) ! (length hs - 2) = hs ! (length hs - 2)"
    by (simp add: nth_append)
  from assms False show ?thesis
    by (simp add: calculate_risk_trend_def Let_def floats_Num nth)
qed

text \<open>The history 60, 58, 55 and the current average 48 give \<^verbatim>\<open>improving\<close> (48 against 58).\<close>

theorem trend_compares_second_to_last_witness:
  "redis_client (world_with_history [Num 60, Num 58, Num 55])
   \<and> lrange_0_4 (world_with_history [Num 60, Num 58, Num 55]) (''cohort_risk_history:'' @ ''c1'')
       = map Num [60, 58, 55]
   \<and> snd (calculate_risk_trend (world_with_history [Num 60, Num 58, Num 55]) ''c1'' ''o1'' 48)
       = Inr Improving"
proof -
  have h: "redis_client (world_with_history [Num 60, Num 58, Num 55])"
    "lrange_0_4 (world_with_history [Num 60, Num 58, Num 55]) (''cohort_risk_history:'' @ ''c1'')
       = map Num [60, 58, 55]"
    by (simp_all add: world_with_history_def example_world_def lrange_0_4_def)
  show ?thesis
    using h trend_compares_second_to_last [OF h, of "''o1''" 48]
    by simp
qed

text \<open>
  C5 as stated compares with \<^verbatim>\<open>history[-3]\<close>. For the history 60, 50, 50 and the
  current average 50 that is a decrease of 10, yet the code answers \<^verbatim>\<open>stable\<close>.
\<close>

theorem trend_not_against_history_third_last:
  "snd (calculate_risk_trend (world_with_history [Num 60, Num 50, Num 50]) ''c1'' ''o1'' 50)
     = Inr Stable
   \<and> (50::real) - [60, 50, 50] ! (length [60, 50, 50 :: real] - 3) < - 5"
  by (simp add: calculate_risk_trend_def lrange_0_4_def world_with_history_def
        example_world_def Let_def)

subsection \<open>The score of a user never reaches the level high\<close>

text \<open>
  The factor calculator always returns the same six factors, \<^verbatim>\<open>time_to_report\<close> being
  50. With the weights of the worker the score is at most 35 + 15 + 5 + 5 = 60, so
  \<^verbatim>\<open>calculate_user_risk\<close> never computes the level \<^verbatim>\<open>high\<close> or \<^verbatim>\<open>critical\<close> and never
  calls the dispatcher.
\<close>

lemma weighted_sum_le_60:
  fixes a b c d e :: real
  assumes "a \<le> 100" "0 \<le> b" "0 \<le> c" "d \<le> 100" "e \<le> 100"
  shows "min (max (a * 0.35 - b * 0.25 - c * 0.20 + d * 0.15 + 5 + e * 0.05) 0) 100 \<le> 60"
proof -
  have "a * 0.35 - b * 0.25 - c * 0.20 + d * 0.15 + 5 + e * 0.05 \<le> 60"
    using assms by simp
  then show ?thesis by simp
qed

lemma time_to_report_50: "calculate_time_to_report uid oid = 50"
  by (simp add: calculate_time_to_report_def)

lemma factors_shape:
  "\<exists>a b c d e. calculate_risk_factors w uid oid m =
     [(''click_rate'', a), (''report_rate'', b), (''training_completion'', c),
      (''recent_incidents'', d), (''time_to_report'', 50), (''repeat_offender'', e)]"
  unfolding calculate_risk_factors_def Let_def time_to_report_50
  by (intro exI) (rule refl)

lemma score_le_60: "calculate_weighted_risk_score (calculate_risk_factors w uid oid m) \<le> 60"
proof -
  obtain a b c d e where "calculate_risk_factors w uid oid m =
     [(''click_rate'', a), (''report_rate'', b), (''training_completion'', c),
      (''recent_incidents'', d), (''time_to_report'', 50), (''repeat_offender'', e)]"
    using factors_shape by blast
  then have "calculate_weighted_risk_score (calculate_risk_factors w uid oid m) =
     min (max (min (max a 0) 100 * 0.35 - min (max b 0) 100 * 0.25 - min (max c 0) 100 * 0.20
             + min (max d 0) 100 * 0.15 + 5 + min (max e 0) 100 * 0.05) 0) 100"
    by (simp only: score_of_six) simp
  also have "\<dots> \<le> 60"
    by (rule weighted_sum_le_60) simp_all
  finally show ?thesis .
qed

lemma level_not_high:
  "determine_risk_level (calculate_weighted_risk_score (calculate_risk_factors w uid oid m)) \<noteq> High"
  "determine_risk_level (calculate_weighted_risk_score (calculate_risk_factors w uid oid m)) \<noteq> Critical"
  using score_le_60[of w uid oid m] by (simp_all add: determine_risk_level_def)

subsection \<open>What a user risk calculation reads and writes\<close>

lemma factors_clock:
  assumes "clock w' = clock w"
  shows "calculate_risk_factors w' uid oid m = calculate_risk_factors w uid oid m"
  by (simp only: calculate_risk_factors_def assms)

lemma kept_refl: "kept w w"
  by (simp add: kept_def)

lemma kept_trans: "kept w w1 \<Longrightarrow> kept w1 w2 \<Longrightarrow> kept w w2"
  by (simp add: kept_def)

lemma kept_logged: "kept w (w\<lparr>logged := l\<rparr>)"
  by (simp add: kept_def)

lemma get_user_metrics_kept: "kept w (fst (get_user_metrics w uid oid))"
  by (simp add: kept_def get_user_metrics_def Let_def split: option.splits sum.splits)

lemma store_user_risk_score_kept: "kept w (fst (store_user_risk_score w rs))"
  by (simp add: kept_def store_user_risk_score_def Let_def)

lemma get_user_metrics_result:
  assumes "clock w' = clock w" and "clickhouse_client w' = clickhouse_client w"
  shows "snd (get_user_metrics w' uid oid) = snd (get_user_metrics w uid oid)"
  by (simp add: get_user_metrics_def Let_def assms split: option.splits sum.splits)

lemma calculate_user_risk_invalid:
  assumes "falsy (req_user_id data) \<or> falsy (req_org_id data)"
  shows "calculate_user_risk w data = (w, Inl (ValueError ''user_id and org_id are required''))"
  using assms by (simp add: calculate_user_risk_def)

lemma calculate_user_risk_metrics_error:
  assumes "\<not> falsy (req_user_id data)" and "\<not> falsy (req_org_id data)"
    and "get_user_metrics w (the (req_user_id data)) (the (req_org_id data)) = (w1, Inl e)"
  shows "calculate_user_risk w data = (w1, Inl e)"
  using assms by (simp add: calculate_user_risk_def Let_def)

lemma calculate_user_risk_store_error:
  assumes "\<not> falsy (req_user_id data)" and "\<not> falsy (req_org_id data)"
    and "get_user_metrics w (the (req_user_id data)) (the (req_org_id data)) = (w1, Inr m)"
    and "\<not> redis_client w1"
  shows "calculate_user_risk w data = (w1, Inl (RuntimeError ''Redis client not initialized''))"
  using assms by (simp add: calculate_user_risk_def Let_def store_user_risk_score_def)

lemma calculate_user_risk_stored:
  assumes "\<not> falsy (req_user_id data)" and "\<not> falsy (req_org_id data)"
    and "get_user_metrics w (the (req_user_id data)) (the (req_org_id data)) = (w1, Inr m)"
    and "redis_client w1"
  shows "calculate_user_risk w data =
     (fst (store_user_risk_score w1
             (risk_score_object w1 (the (req_user_id data)) (the (req_org_id data)) m)),
      Inr (response_of
             (risk_score_object w1 (the (req_user_id data)) (the (req_org_id data)) m)))"
  using assms
  by (simp add: calculate_user_risk_def Let_def store_user_risk_score_def level_not_high
        risk_score_object_def response_of_def)

lemma risk_score_object_clock:
  assumes "clock w' = clock w"
  shows "risk_score_object w' uid oid m = risk_score_object w uid oid m"
  by (simp only: risk_score_object_def factors_clock [OF assms] assms)

lemma calculate_user_risk_kept: "kept w (fst (calculate_user_risk w data))"
proof (cases "falsy (req_user_id data) \<or> falsy (req_org_id data)")
  case True
  then show ?thesis
    by (simp add: calculate_user_risk_invalid kept_refl)
next
  case False
  then have valid: "\<not> falsy (req_user_id data)" "\<not> falsy (req_org_id data)"
    by simp_all
  obtain w1 r where g: "get_user_metrics w (the (req_user_id data)) (the (req_org_id data)) = (w1, r)"
    by (cases "get_user_metrics w (the (req_user_id data)) (the (req_org_id data))")
  have k1: "kept w w1"
    using get_user_metrics_kept [of w "the (req_user_id data)" "the (req_org_id data)"] g by simp
  show ?thesis
  proof (cases r)
    case (Inl e)
    with valid g k1 show ?thesis
      by (simp add: calculate_user_risk_metrics_error)
  next
    case (Inr m)
    show ?thesis
    proof (cases "redis_client w1")
      case True
      with valid g Inr have "fst (calculate_user_risk w data) =
          fst (store_user_risk_score w1
                 (risk_score_object w1 (the (req_user_id data)) (the (req_org_id data)) m))"
        by (simp add: calculate_user_risk_stored)
      with k1 show ?thesis
        using store_user_risk_score_kept kept_trans by metis
    next
      case False
      with valid g Inr k1 show ?thesis
        by (simp add: calculate_user_risk_store_error)
    qed
  qed
qed

lemma calculate_user_risk_result:
  assumes "kept w w'"
  shows "snd (calculate_user_risk w' data) = snd (calculate_user_risk w data)"
proof (cases "falsy (req_user_id data) \<or> falsy (req_org_id data)")
  case True
  then show ?thesis
    by (simp add: calculate_user_risk_invalid)
next
  case False
  then have valid: "\<not> falsy (req_user_id data)" "\<not> falsy (req_org_id data)"
    by simp_all
  let ?uid = "the (req_user_id data)" and ?oid = "the (req_org_id data)"
  obtain w1 r where g: "get_user_metrics w ?uid ?oid = (w1, r)"
    by (cases "get_user_metrics w ?uid ?oid")
  obtain w1' r' where g': "get_user_metrics w' ?uid ?oid = (w1', r')"
    by (cases "get_user_metrics w' ?uid ?oid")
  have k1: "kept w w1"
    using get_user_metrics_kept [of w ?uid ?oid] g by simp
  have k1': "kept w' w1'"
    using get_user_metrics_kept [of w' ?uid ?oid] g' by simp
  have same: "r' = r"
    using get_user_metrics_result [of w' w ?uid ?oid] assms g g' by (simp add: kept_def)
  have clk: "clock w1' = clock w1" and rds: "redis_client w1' = redis_client w1"
    using assms k1 k1' by (simp_all add: kept_def)
  show ?thesis
  proof (cases r)
    case (Inl e)
    with valid g g' same show ?thesis
      by (simp add: calculate_user_risk_metrics_error)
  next
    case (Inr m)
    show ?thesis
    proof (cases "redis_client w1")
      case True
      with valid g g' same Inr rds show ?thesis
        by (simp add: calculate_user_risk_stored risk_score_object_clock [OF clk])
    next
      case False
      with valid g g' same Inr rds show ?thesis
        by (simp add: calculate_user_risk_store_error)
    qed
  qed
qed

subsection \<open>No user risk calculation reaches the dispatcher\<close>

text \<open>
  C3 and C6 speak of the user risk evaluations whose computed level is \<^verbatim>\<open>high\<close> or
  \<^verbatim>\<open>critical\<close>. There is none: every response of \<^verbatim>\<open>calculate_user_risk\<close> has a score
  of at most 60 and a level below \<^verbatim>\<open>high\<close>, so the call of
  \<^verbatim>\<open>_trigger_adaptive_actions\<close> in \<^verbatim>\<open>calculate_user_risk\<close> is never reached and no
  calculation publishes a message.
\<close>

lemma user_risk_never_high:
  assumes "snd (calculate_user_risk w data) = Inr r"
  shows "resp_risk_score r \<le> 60 \<and> resp_risk_level r \<noteq> High \<and> resp_risk_level r \<noteq> Critical"
proof -
  let ?uid = "the (req_user_id data)" and ?oid = "the (req_org_id data)"
  have valid: "\<not> falsy (req_user_id data)" "\<not> falsy (req_org_id data)"
    using assms calculate_user_risk_invalid [of data w] by auto
  obtain w1 x where g: "get_user_metrics w ?uid ?oid = (w1, x)"
    by (cases "get_user_metrics w ?uid ?oid")
  show ?thesis
  proof (cases x)
    case (Inl e)
    with valid g assms show ?thesis
      by (simp add: calculate_user_risk_metrics_error)
  next
    case (Inr m)
    show ?thesis
    proof (cases "redis_client w1")
      case False
      with valid g Inr assms show ?thesis
        by (simp add: calculate_user_risk_store_error)
    next
      case True
      with valid g Inr assms
      have "r = response_of (risk_score_object w1 ?uid ?oid m)"
        by (simp add: calculate_user_risk_stored)
      then show ?thesis
        by (simp add: response_of_def risk_score_object_def Let_def score_le_60 level_not_high)
    qed
  qed
qed

lemma user_risk_publishes_nothing:
  "published (fst (calculate_user_risk w data)) = published w"
  using calculate_user_risk_kept [of w data] by (simp add: kept_def)

lemma user_score_kept:
  assumes "kept w w'"
  shows "user_score w' oid u = user_score w oid u"
  by (simp add: user_score_def calculate_user_risk_result [OF assms])

lemma collect_user_risk_scores_spec:
  assumes "kept w w0"
  shows "kept w (fst (collect_user_risk_scores w0 oid us acc))
         \<and> snd (collect_user_risk_scores w0 oid us acc)
             = acc @ List.map_filter (user_score w oid) us"
  using assms
proof (induction us arbitrary: w0 acc)
  case Nil
  then show ?case
    by (simp add: List.map_filter_simps)
next
  case (Cons u us)
  let ?req = "\<lparr>req_user_id = Some u, req_org_id = oid\<rparr>"
  obtain w1 r where c: "calculate_user_risk w0 ?req = (w1, r)"
    by (cases "calculate_user_risk w0 ?req")
  have k1: "kept w w1"
    using calculate_user_risk_kept [of w0 ?req] c Cons.prems kept_trans by fastforce
  have sc: "user_score w oid u = (case r of Inl e \<Rightarrow> None | Inr x \<Rightarrow> Some (resp_risk_score x))"
    using user_score_kept [OF Cons.prems, of oid u] c by (simp add: user_score_def)
  show ?case
  proof (cases r)
    case (Inl e)
    let ?w2 = "w1\<lparr>logged := logged w1 @
                 [Warning (''Failed to calculate risk for user '' @ u @ '': '' @ exn_str e)]\<rparr>"
    have "kept w ?w2"
      using k1 by (simp add: kept_def)
    from Cons.IH [OF this, of acc] c Inl sc show ?thesis
      by (simp add: List.map_filter_simps)
  next
    case (Inr x)
    from Cons.IH [OF k1, of "acc @ [resp_risk_score x]"] c Inr sc show ?thesis
      by (simp add: List.map_filter_simps)
  qed
qed

subsection \<open>The cohort calculation in closed form\<close>

lemma calculate_risk_trend_world: "fst (calculate_risk_trend w cid oid a) = w"
  by (simp add: calculate_risk_trend_def Let_def split: sum.splits)

lemma calculate_risk_trend_result:
  assumes "kept w w'"
  shows "snd (calculate_risk_trend w' cid oid a) = snd (calculate_risk_trend w cid oid a)"
proof -
  let ?h = "lrange_0_4 w (''cohort_risk_history:'' @ cid)"
  have r: "redis_client w' = redis_client w"
    using assms by (simp add: kept_def)
  have h: "lrange_0_4 w' (''cohort_risk_history:'' @ cid) = ?h"
    using assms by (simp add: kept_def lrange_0_4_def)
  show ?thesis
  proof (cases "redis_client w \<and> \<not> length ?h < 2")
    case False
    then show ?thesis
      unfolding calculate_risk_trend_def Let_def h r by auto
  next
    case True
    then show ?thesis
      unfolding calculate_risk_trend_def Let_def h r
      by (cases "floats ?h") simp_all
  qed
qed

lemma calculate_risk_trend_needs_redis:
  assumes "snd (calculate_risk_trend w cid oid a) = Inr t"
  shows "redis_client w"
  using assms by (cases "redis_client w") (simp_all add: calculate_risk_trend_def)

lemma store_cohort_risk_kept: "kept w (fst (store_cohort_risk w c))"
  by (simp add: kept_def store_cohort_risk_def Let_def)

lemma store_cohort_risk_ok: "redis_client w \<Longrightarrow> snd (store_cohort_risk w c) = Inr ()"
  by (simp add: store_cohort_risk_def Let_def)

lemma not_falsy_Some: "\<not> falsy x \<Longrightarrow> Some (the x) = x"
  by (cases x) simp_all

lemma calculate_cohort_risk_invalid:
  assumes "falsy (req_cohort_id data) \<or> falsy (req_cohort_org_id data)"
  shows "calculate_cohort_risk w data = (w, Inl (ValueError ''cohort_id and org_id are required''))"
  using assms by (simp add: calculate_cohort_risk_def)

lemma calculate_cohort_risk_valid:
  fixes w :: world and data :: cohort_request
  assumes "\<not> falsy (req_cohort_id data)" and "\<not> falsy (req_cohort_org_id data)"
  defines "scores \<equiv> List.map_filter (user_score w (req_cohort_org_id data)) (req_user_ids data)"
  shows "kept w (fst (calculate_cohort_risk w data))
   \<and> snd (calculate_cohort_risk w data) =
     (if scores = [] then Inr (Failure ''No valid user risk scores calculated'')
      else case snd (calculate_risk_trend w (the (req_cohort_id data))
                       (the (req_cohort_org_id data)) (mean scores)) of
             Inl e \<Rightarrow> Inl e
           | Inr trend \<Rightarrow>
               Inr (Success
                 \<lparr>res_cohort_id = the (req_cohort_id data),
                  res_average_risk_score = mean scores,
                  res_high_risk_users = length (filter (\<lambda>score. score \<ge> 75) scores),
                  res_total_users = length (req_user_ids data),
                  res_risk_trend = trend,
                  res_recommendations =
                    generate_cohort_recommendations (mean scores)
                      (length (filter (\<lambda>score. score \<ge> 75) scores))
                      (length (req_user_ids data)) trend\<rparr>))"
proof -
  let ?cid = "the (req_cohort_id data)" and ?oid = "the (req_cohort_org_id data)"
  define w1 where "w1 = fst (collect_user_risk_scores w (Some ?oid) (req_user_ids data) [])"
  define t where "t = snd (calculate_risk_trend w ?cid ?oid (mean scores))"
  have oid: "Some ?oid = req_cohort_org_id data"
    using assms(2) by (rule not_falsy_Some)
  have spec: "kept w w1 \<and>
      snd (collect_user_risk_scores w (Some ?oid) (req_user_ids data) []) = scores"
    using collect_user_risk_scores_spec [OF kept_refl, of w "Some ?oid" "req_user_ids data" "[]"]
    by (simp add: scores_def oid w1_def)
  then have k1: "kept w w1" ..
  have c: "collect_user_risk_scores w (Some ?oid) (req_user_ids data) [] = (w1, scores)"
    using spec by (simp add: w1_def prod_eq_iff)
  have tr: "calculate_risk_trend w1 ?cid ?oid (mean scores) = (w1, t)"
    using calculate_risk_trend_world [of w1 ?cid ?oid "mean scores"]
      calculate_risk_trend_result [OF k1, of ?cid ?oid "mean scores"]
    by (simp add: t_def prod_eq_iff)
  have tw: "snd (calculate_risk_trend w ?cid ?oid (mean scores)) = t"
    by (simp add: t_def)
  show ?thesis
  proof (cases "scores = []")
    case True
    with assms(1,2) c k1 show ?thesis
      by (simp add: calculate_cohort_risk_def Let_def)
  next
    case False
    show ?thesis
    proof (cases t)
      case (Inl e)
      with assms(1,2) c k1 tr False show ?thesis
        by (simp add: calculate_cohort_risk_def Let_def tw)
    next
      case (Inr trend)
      then have "redis_client w1"
        using calculate_risk_trend_needs_redis [of w1 ?cid ?oid "mean scores" trend] tr by simp
      then have st: "\<And>c. store_cohort_risk w1 c =
          (w1\<lparr>redis_kv := (redis_kv w1)((''cohort_risk:'' @ cohort_id c) \<mapsto>
                  (86400, JObj
               [(''cohort_id'', JStr (cohort_id c)),
                (''org_id'', JStr (cohort_org_id c)),
                (''average_risk_score'', JNum (average_risk_score c)),
                (''high_risk_users'', JNum (real (high_risk_users c))),
                (''total_users'', JNum (real (total_users c))),
                (''risk_trend'', JStr (trend_name (risk_trend c))),
                (''recommended_actions'', JArr (map JStr (recommended_actions c))),
                (''last_updated'', JTime (cohort_last_updated c))]))\<rparr>, Inr ())"
        by (simp add: store_cohort_risk_def)
      have k3: "\<And>kv. kept w (w1\<lparr>redis_kv := kv\<rparr>)"
        using k1 by (simp add: kept_def)
      from assms(1,2) c tr False Inr show ?thesis
        by (simp add: calculate_cohort_risk_def Let_def tw st k3)
    qed
  qed
qed

subsection \<open>A failing event store\<close>

lemma factors_empty:
  "calculate_risk_factors w uid oid Map.empty =
     [(''click_rate'', 0), (''report_rate'', 0), (''training_completion'', 0),
      (''recent_incidents'', 0), (''time_to_report'', 50), (''repeat_offender'', 0)]"
  by (simp add: calculate_risk_factors_def count_of_def incident_types_def
        calculate_repeat_offender_score_def time_to_report_50)

lemma response_empty_metrics:
  "response_of (risk_score_object w uid oid Map.empty) =
     \<lparr>resp_user_id = uid, resp_risk_score = 5, resp_risk_level = Low,
      resp_factors =
        [(''click_rate'', 0), (''report_rate'', 0), (''training_completion'', 0),
         (''recent_incidents'', 0), (''time_to_report'', 50), (''repeat_offender'', 0)],
      resp_recommendations =
        [''Learn how to properly report suspicious emails'',
         ''Complete pending security awareness training'']\<rparr>"
  by (simp add: response_of_def risk_score_object_def factors_empty score_of_six
        determine_risk_level_def generate_user_recommendations_def dict_get_def)

lemma calculate_user_risk_empty_metrics:
  assumes "uid \<noteq> []" and "oid \<noteq> []" and "redis_client w"
    and "snd (get_user_metrics w uid oid) = Inr Map.empty"
  shows "snd (calculate_user_risk w \<lparr>req_user_id = Some uid, req_org_id = Some oid\<rparr>) =
     Inr \<lparr>resp_user_id = uid, resp_risk_score = 5, resp_risk_level = Low,
          resp_factors =
            [(''click_rate'', 0), (''report_rate'', 0), (''training_completion'', 0),
             (''recent_incidents'', 0), (''time_to_report'', 50), (''repeat_offender'', 0)],
          resp_recommendations =
            [''Learn how to properly report suspicious emails'',
             ''Complete pending security awareness training'']\<rparr>"
proof -
  let ?d = "\<lparr>req_user_id = Some uid, req_org_id = Some oid\<rparr>"
  define w1 where "w1 = fst (get_user_metrics w uid oid)"
  have g: "get_user_metrics w (the (req_user_id ?d)) (the (req_org_id ?d)) = (w1, Inr Map.empty)"
    using assms(4) by (simp add: w1_def prod_eq_iff)
  have "kept w w1"
    unfolding w1_def by (rule get_user_metrics_kept)
  then have r1: "redis_client w1"
    using assms(3) by (simp add: kept_def)
  have v: "\<not> falsy (req_user_id ?d)" "\<not> falsy (req_org_id ?d)"
    using assms(1,2) by simp_all
  show ?thesis
    using calculate_user_risk_stored [OF v g r1]
    by (simp add: response_empty_metrics)
qed

text \<open>
  C2, as the code has it. When the query of the event store fails for a valid request
  (and Redis is connected), \<^verbatim>\<open>_get_user_metrics\<close> logs the error and returns the empty
  dictionary instead of raising, and the calculation goes on: every factor is 0 except
  \<^verbatim>\<open>time_to_report\<close>, which \<^verbatim>\<open>_calculate_time_to_report\<close> sets to 50, so that the
  overall score is 5 and the level \<^verbatim>\<open>low\<close>.
\<close>

theorem query_failure_scores_five:
  assumes "clickhouse_client w = Some execute"
    and "execute uid oid (clock w - days 90) = Inl e"
    and "uid \<noteq> []" and "oid \<noteq> []" and "redis_client w"
  shows "get_user_metrics w uid oid =
           (w\<lparr>logged := logged w @ [Error (''Failed to get user metrics: '' @ exn_str e)]\<rparr>,
            Inr Map.empty)
   \<and> snd (calculate_user_risk w \<lparr>req_user_id = Some uid, req_org_id = Some oid\<rparr>) =
     Inr \<lparr>resp_user_id = uid, resp_risk_score = 5, resp_risk_level = Low,
          resp_factors =
            [(''click_rate'', 0), (''report_rate'', 0), (''training_completion'', 0),
             (''recent_incidents'', 0), (''time_to_report'', 50), (''repeat_offender'', 0)],
          resp_recommendations =
            [''Learn how to properly report suspicious emails'',
             ''Complete pending security awareness training'']\<rparr>"
proof -
  have g: "get_user_metrics w uid oid =
           (w\<lparr>logged := logged w @ [Error (''Failed to get user metrics: '' @ exn_str e)]\<rparr>,
            Inr Map.empty)"
    using assms(1,2) by (simp add: get_user_metrics_def)
  then have "snd (get_user_metrics w uid oid) = Inr Map.empty"
    by simp
  from g calculate_user_risk_empty_metrics [OF assms(3,4,5) this] show ?thesis
    by simp
qed

text \<open>The same in the world whose event store refuses the connection.\<close>

theorem query_failure_scores_five_witness:
  "clickhouse_client world_query_fails
     = Some (\<lambda>uid oid start_date. Inl (OtherError ''connection refused''))
   \<and> redis_client world_query_fails
   \<and> logged (fst (get_user_metrics world_query_fails ''u1'' ''o1''))
       = [Error ''Failed to get user metrics: connection refused'']
   \<and> snd (calculate_user_risk world_query_fails request_u1) =
     Inr \<lparr>resp_user_id = ''u1'', resp_risk_score = 5, resp_risk_level = Low,
          resp_factors =
            [(''click_rate'', 0), (''report_rate'', 0), (''training_completion'', 0),
             (''recent_incidents'', 0), (''time_to_report'', 50), (''repeat_offender'', 0)],
          resp_recommendations =
            [''Learn how to properly report suspicious emails'',
             ''Complete pending security awareness training'']\<rparr>"
proof -
  have h: "clickhouse_client world_query_fails
             = Some (\<lambda>uid oid start_date. Inl (OtherError ''connection refused''))"
    "(\<lambda>uid oid start_date. Inl (OtherError ''connection refused'')) ''u1'' ''o1''
       (clock world_query_fails - days 90) = Inl (OtherError ''connection refused'')"
    "''u1'' \<noteq> []" "''o1'' \<noteq> []" "redis_client world_query_fails"
    by (simp_all add: world_query_fails_def example_world_def)
  show ?thesis
    using h(1,5) query_failure_scores_five [OF h]
    by (simp add: request_u1_def world_query_fails_def example_world_def)
qed

text \<open>
  C2 as stated (all factors 0, score 0) does not hold there: the response is not the
  all-zero one, the score is 5 and the factor \<^verbatim>\<open>time_to_report\<close> is 50.
\<close>

theorem query_failure_score_not_zero:
  "snd (calculate_user_risk world_query_fails request_u1) \<noteq>
     Inr \<lparr>resp_user_id = ''u1'', resp_risk_score = 0, resp_risk_level = Low,
          resp_factors =
            [(''click_rate'', 0), (''report_rate'', 0), (''training_completion'', 0),
             (''recent_incidents'', 0), (''time_to_report'', 0), (''repeat_offender'', 0)],
          resp_recommendations =
            [''Learn how to properly report suspicious emails'',
             ''Complete pending security awareness training'']\<rparr>
   \<and> calculate_weighted_risk_score
         (calculate_risk_factors world_query_fails ''u1'' ''o1'' Map.empty) = 5
   \<and> dict_get (calculate_risk_factors world_query_fails ''u1'' ''o1'' Map.empty)
         ''time_to_report'' 0 = 50"
proof -
  have "snd (get_user_metrics world_query_fails ''u1'' ''o1'') = Inr Map.empty"
    by (simp add: get_user_metrics_def world_query_fails_def example_world_def)
  then have "snd (calculate_user_risk world_query_fails request_u1) =
     Inr \<lparr>resp_user_id = ''u1'', resp_risk_score = 5, resp_risk_level = Low,
          resp_factors =
            [(''click_rate'', 0), (''report_rate'', 0), (''training_completion'', 0),
             (''recent_incidents'', 0), (''time_to_report'', 50), (''repeat_offender'', 0)],
          resp_recommendations =
            [''Learn how to properly report suspicious emails'',
             ''Complete pending security awareness training'']\<rparr>"
    using calculate_user_risk_empty_metrics [of "''u1''" "''o1''" world_query_fails]
    by (simp add: request_u1_def world_query_fails_def example_world_def)
  then show ?thesis
    by (simp add: factors_empty score_of_six dict_get_def)
qed

subsection \<open>Recalculating a user\<close>

lemma factors_same_recency:
  assumes "\<forall>t\<in>set incident_types. \<forall>x. m t = Some x \<longrightarrow>
             (clock w1 - days 30 \<le> last_event x) = (clock w2 - days 30 \<le> last_event x)"
  shows "calculate_risk_factors w1 uid oid m = calculate_risk_factors w2 uid oid m"
proof -
  have "foldl (\<lambda>n event_type.
                 case m event_type of
                   None \<Rightarrow> n
                 | Some x \<Rightarrow> if last_event x \<ge> clock w1 - days 30 then n + count x else n)
              0 incident_types
      = foldl (\<lambda>n event_type.
                 case m event_type of
                   None \<Rightarrow> n
                 | Some x \<Rightarrow> if last_event x \<ge> clock w2 - days 30 then n + count x else n)
              0 incident_types"
    by (rule foldl_cong) (use assms in \<open>auto split: option.splits\<close>)
  then show ?thesis
    unfolding calculate_risk_factors_def Let_def by (simp only:)
qed

lemma risk_score_object_same_factors:
  assumes "calculate_risk_factors w1 uid oid m = calculate_risk_factors w2 uid oid m"
  shows "risk_score_object w1 uid oid m = (risk_score_object w2 uid oid m)\<lparr>last_updated := clock w1\<rparr>"
  by (simp add: risk_score_object_def assms Let_def)

lemma response_of_last_updated: "response_of (rs\<lparr>last_updated := t\<rparr>) = response_of rs"
  by (simp add: response_of_def generate_user_recommendations_def)

lemma store_user_risk_score_key:
  assumes "redis_client w"
  shows "\<exists>j. redis_kv (fst (store_user_risk_score w rs)) (''user_risk:'' @ user_id rs)
               = Some (86400, j)
             \<and> without_last_updated j =
                 JObj [(''user_id'', JStr (user_id rs)),
                       (''org_id'', JStr (org_id rs)),
                       (''overall_score'', JNum (overall_score rs)),
                       (''risk_level'', JStr (level_name (risk_level rs))),
                       (''click_rate'', JNum (click_rate rs)),
                       (''report_rate'', JNum (report_rate rs)),
                       (''training_completion_rate'', JNum (training_completion_rate rs)),
                       (''recent_incidents'', JNum (recent_incidents rs)),
                       (''factors'', JObj (map (\<lambda>(k, v). (k, JNum v)) (factors rs)))]"
  using assms by (simp add: store_user_risk_score_def Let_def)

lemma user_id_risk_score_object: "user_id (risk_score_object w uid oid m) = uid"
  by (simp add: risk_score_object_def Let_def)

lemma calculate_user_risk_with_metrics:
  assumes "uid \<noteq> []" and "oid \<noteq> []" and "redis_client w"
    and "snd (get_user_metrics w uid oid) = Inr m"
  shows "snd (calculate_user_risk w \<lparr>req_user_id = Some uid, req_org_id = Some oid\<rparr>)
           = Inr (response_of (risk_score_object w uid oid m))
         \<and> (\<exists>w1. redis_client w1 \<and>
               fst (calculate_user_risk w \<lparr>req_user_id = Some uid, req_org_id = Some oid\<rparr>)
                 = fst (store_user_risk_score w1 (risk_score_object w uid oid m)))"
proof -
  let ?d = "\<lparr>req_user_id = Some uid, req_org_id = Some oid\<rparr>"
  define w1 where "w1 = fst (get_user_metrics w uid oid)"
  have g: "get_user_metrics w (the (req_user_id ?d)) (the (req_org_id ?d)) = (w1, Inr m)"
    using assms(4) by (simp add: w1_def prod_eq_iff)
  have k: "kept w w1"
    unfolding w1_def by (rule get_user_metrics_kept)
  then have r1: "redis_client w1" and c1: "clock w1 = clock w"
    using assms(3) by (simp_all add: kept_def)
  have v: "\<not> falsy (req_user_id ?d)" "\<not> falsy (req_org_id ?d)"
    using assms(1,2) by simp_all
  have "calculate_user_risk w ?d =
          (fst (store_user_risk_score w1 (risk_score_object w uid oid m)),
           Inr (response_of (risk_score_object w uid oid m)))"
    using calculate_user_risk_stored [OF v g r1]
    by (simp add: risk_score_object_clock [OF c1])
  with r1 show ?thesis
    by auto
qed

text \<open>
  C9, as the code has it. Take two valid calculations for the same user, with Redis
  connected, that find the same metrics \<open>m\<close>, and whose clocks classify the last
  occurrence of every incident type alike (before or after the cut-off of 30 days).
  Then the factor maps are identical, the responses (score, level, factors,
  recommendations) are identical, and the two stored \<^verbatim>\<open>RiskScore\<close> dictionaries are
  identical apart from \<^verbatim>\<open>last_updated\<close>.
\<close>

theorem recalculation_same_risk_score:
  assumes "uid \<noteq> []" and "oid \<noteq> []"
    and "redis_client w1" and "redis_client w2"
    and "snd (get_user_metrics w1 uid oid) = Inr m"
    and "snd (get_user_metrics w2 uid oid) = Inr m"
    and "\<forall>t\<in>set incident_types. \<forall>x. m t = Some x \<longrightarrow>
           (clock w1 - days 30 \<le> last_event x) = (clock w2 - days 30 \<le> last_event x)"
  shows "calculate_risk_factors w1 uid oid m = calculate_risk_factors w2 uid oid m
   \<and> snd (calculate_user_risk w1 \<lparr>req_user_id = Some uid, req_org_id = Some oid\<rparr>)
       = snd (calculate_user_risk w2 \<lparr>req_user_id = Some uid, req_org_id = Some oid\<rparr>)
   \<and> (\<exists>j1 j2.
         redis_kv (fst (calculate_user_risk w1 \<lparr>req_user_id = Some uid, req_org_id = Some oid\<rparr>))
           (''user_risk:'' @ uid) = Some (86400, j1)
       \<and> redis_kv (fst (calculate_user_risk w2 \<lparr>req_user_id = Some uid, req_org_id = Some oid\<rparr>))
           (''user_risk:'' @ uid) = Some (86400, j2)
       \<and> without_last_updated j1 = without_last_updated j2)"
proof -
  let ?d = "\<lparr>req_user_id = Some uid, req_org_id = Some oid\<rparr>"
  let ?r1 = "risk_score_object w1 uid oid m" and ?r2 = "risk_score_object w2 uid oid m"
  have f: "calculate_risk_factors w1 uid oid m = calculate_risk_factors w2 uid oid m"
    using assms(7) by (rule factors_same_recency)
  have r: "?r1 = ?r2\<lparr>last_updated := clock w1\<rparr>"
    using f by (rule risk_score_object_same_factors)
  from calculate_user_risk_with_metrics [OF assms(1,2,3,5)]
  obtain a1 where a1: "redis_client a1"
      "fst (calculate_user_risk w1 ?d) = fst (store_user_risk_score a1 ?r1)"
    and s1: "snd (calculate_user_risk w1 ?d) = Inr (response_of ?r1)"
    by blast
  from calculate_user_risk_with_metrics [OF assms(1,2,4,6)]
  obtain a2 where a2: "redis_client a2"
      "fst (calculate_user_risk w2 ?d) = fst (store_user_risk_score a2 ?r2)"
    and s2: "snd (calculate_user_risk w2 ?d) = Inr (response_of ?r2)"
    by blast
  have same: "snd (calculate_user_risk w1 ?d) = snd (calculate_user_risk w2 ?d)"
    using s1 s2 r by (simp add: response_of_last_updated)
  from store_user_risk_score_key [OF a1(1), of ?r1]
  obtain j1 where j1: "redis_kv (fst (calculate_user_risk w1 ?d)) (''user_risk:'' @ uid)
                         = Some (86400, j1)"
    and o1: "without_last_updated j1 =
                 JObj [(''user_id'', JStr (user_id ?r1)),
                       (''org_id'', JStr (org_id ?r1)),
                       (''overall_score'', JNum (overall_score ?r1)),
                       (''risk_level'', JStr (level_name (risk_level ?r1))),
                       (''click_rate'', JNum (click_rate ?r1)),
                       (''report_rate'', JNum (report_rate ?r1)),
                       (''training_completion_rate'', JNum (training_completion_rate ?r1)),
                       (''recent_incidents'', JNum (recent_incidents ?r1)),
                       (''factors'', JObj (map (\<lambda>(k, v). (k, JNum v)) (factors ?r1)))]"
    unfolding a1(2) user_id_risk_score_object by blast
  from store_user_risk_score_key [OF a2(1), of ?r2]
  obtain j2 where j2: "redis_kv (fst (calculate_user_risk w2 ?d)) (''user_risk:'' @ uid)
                         = Some (86400, j2)"
    and o2: "without_last_updated j2 =
                 JObj [(''user_id'', JStr (user_id ?r2)),
                       (''org_id'', JStr (org_id ?r2)),
                       (''overall_score'', JNum (overall_score ?r2)),
                       (''risk_level'', JStr (level_name (risk_level ?r2))),
                       (''click_rate'', JNum (click_rate ?r2)),
                       (''report_rate'', JNum (report_rate ?r2)),
                       (''training_completion_rate'', JNum (training_completion_rate ?r2)),
                       (''recent_incidents'', JNum (recent_incidents ?r2)),
                       (''factors'', JObj (map (\<lambda>(k, v). (k, JNum v)) (factors ?r2)))]"
    unfolding a2(2) user_id_risk_score_object by blast
  have "without_last_updated j1 = without_last_updated j2"
    unfolding o1 o2 by (simp add: r)
  with f same j1 j2 show ?thesis
    by blast
qed

lemma metrics_clicked:
  "snd (get_user_metrics (world_clicked today) uid oid) = Inr clicked_metrics"
  by (simp add: get_user_metrics_def world_clicked_def example_world_def clicked_metrics_def)

lemma factors_clicked:
  "calculate_risk_factors (world_clicked today) uid oid clicked_metrics =
     [(''click_rate'', 0), (''report_rate'', 0), (''training_completion'', 0),
      (''recent_incidents'', if today \<le> 105 then 1 else 0),
      (''time_to_report'', 50), (''repeat_offender'', 50)]"
  by (simp add: calculate_risk_factors_def count_of_def incident_types_def
        calculate_repeat_offender_score_def time_to_report_50 clicked_metrics_def
        world_clicked_def example_world_def days_def)

lemma response_clicked:
  "snd (calculate_user_risk (world_clicked today) request_u1) =
     Inr \<lparr>resp_user_id = ''u1'',
          resp_risk_score = (if today \<le> 105 then 7.65 else 7.5),
          resp_risk_level = Low,
          resp_factors =
            [(''click_rate'', 0), (''report_rate'', 0), (''training_completion'', 0),
             (''recent_incidents'', if today \<le> 105 then 1 else 0),
             (''time_to_report'', 50), (''repeat_offender'', 50)],
          resp_recommendations =
            [''Learn how to properly report suspicious emails'',
             ''Complete pending security awareness training'']\<rparr>"
proof -
  have r: "redis_client (world_clicked today)"
    by (simp add: world_clicked_def example_world_def)
  have "snd (calculate_user_risk (world_clicked today) request_u1)
          = Inr (response_of (risk_score_object (world_clicked today) ''u1'' ''o1'' clicked_metrics))"
    using calculate_user_risk_with_metrics [OF _ _ r metrics_clicked, of "''u1''" "''o1''"]
    by (simp add: request_u1_def)
  then show ?thesis
    by (simp add: response_of_def risk_score_object_def factors_clicked score_of_six
          determine_risk_level_def generate_user_recommendations_def dict_get_def)
qed

text \<open>Day 100 and day 101: the click of day 75 is recent on both.\<close>

theorem recalculation_same_risk_score_witness:
  "redis_client (world_clicked 100) \<and> redis_client (world_clicked 101)
   \<and> snd (get_user_metrics (world_clicked 100) ''u1'' ''o1'') = Inr clicked_metrics
   \<and> snd (get_user_metrics (world_clicked 101) ''u1'' ''o1'') = Inr clicked_metrics
   \<and> calculate_risk_factors (world_clicked 100) ''u1'' ''o1'' clicked_metrics
       = calculate_risk_factors (world_clicked 101) ''u1'' ''o1'' clicked_metrics
   \<and> snd (calculate_user_risk (world_clicked 100) request_u1)
       = snd (calculate_user_risk (world_clicked 101) request_u1)"
proof -
  have h: "''u1'' \<noteq> []" "''o1'' \<noteq> []"
    "redis_client (world_clicked 100)" "redis_client (world_clicked 101)"
    "snd (get_user_metrics (world_clicked 100) ''u1'' ''o1'') = Inr clicked_metrics"
    "snd (get_user_metrics (world_clicked 101) ''u1'' ''o1'') = Inr clicked_metrics"
    "\<forall>t\<in>set incident_types. \<forall>x. clicked_metrics t = Some x \<longrightarrow>
       (clock (world_clicked 100) - days 30 \<le> last_event x)
         = (clock (world_clicked 101) - days 30 \<le> last_event x)"
    by (simp_all add: metrics_clicked)
       (simp_all add: world_clicked_def example_world_def clicked_metrics_def
          incident_types_def days_def)
  show ?thesis
    using h(3-6) recalculation_same_risk_score [OF h]
    by (simp add: request_u1_def)
qed

text \<open>
  C9 as stated does not hold: on day 100 and on day 110 the metrics are the same, but
  the click of day 75 counts as a recent incident only on day 100, and the scores are
  7.65 and 7.5.
\<close>

theorem recalculation_depends_on_clock:
  "snd (get_user_metrics (world_clicked 100) ''u1'' ''o1'')
     = snd (get_user_metrics (world_clicked 110) ''u1'' ''o1'')
   \<and> snd (calculate_user_risk (world_clicked 100) request_u1) =
     Inr \<lparr>resp_user_id = ''u1'', resp_risk_score = 7.65, resp_risk_level = Low,
          resp_factors =
            [(''click_rate'', 0), (''report_rate'', 0), (''training_completion'', 0),
             (''recent_incidents'', 1), (''time_to_report'', 50), (''repeat_offender'', 50)],
          resp_recommendations =
            [''Learn how to properly report suspicious emails'',
             ''Complete pending security awareness training'']\<rparr>
   \<and> snd (calculate_user_risk (world_clicked 110) request_u1) =
     Inr \<lparr>resp_user_id = ''u1'', resp_risk_score = 7.5, resp_risk_level = Low,
          resp_factors =
            [(''click_rate'', 0), (''report_rate'', 0), (''training_completion'', 0),
             (''recent_incidents'', 0), (''time_to_report'', 50), (''repeat_offender'', 50)],
          resp_recommendations =
            [''Learn how to properly report suspicious emails'',
             ''Complete pending security awareness training'']\<rparr>"
  by (simp add: metrics_clicked response_clicked)

subsection \<open>Cohorts\<close>

lemma map_filter_all_None:
  assumes "\<forall>x\<in>set xs. f x = None"
  shows "List.map_filter f xs = []"
  using assms by (induction xs) (simp_all add: List.map_filter_simps)

lemma user_score_no_events:
  assumes "u \<noteq> []" and "oid \<noteq> []" and "redis_client w"
    and "snd (get_user_metrics w u oid) = Inr Map.empty"
  shows "user_score w (Some oid) u = Some 5"
  using calculate_user_risk_empty_metrics [OF assms] by (simp add: user_score_def)

lemma user_score_empty_id: "user_score w oid [] = None"
  by (simp add: user_score_def calculate_user_risk_def)

text \<open>
  C4, what the code does. No cohort calculation changes any Redis list: the history
  under \<^verbatim>\<open>cohort_risk_history:<cohort>\<close> is read by \<^verbatim>\<open>_calculate_risk_trend\<close> and never
  written, so the new average is not appended and nothing is evicted.
\<close>

theorem cohort_never_writes_history:
  "redis_lists (fst (calculate_cohort_risk w data)) = redis_lists w"
proof (cases "falsy (req_cohort_id data) \<or> falsy (req_cohort_org_id data)")
  case True
  then show ?thesis
    by (simp add: calculate_cohort_risk_invalid)
next
  case False
  then have "kept w (fst (calculate_cohort_risk w data))"
    using calculate_cohort_risk_valid [of data w] by simp
  then show ?thesis
    by (simp add: kept_def)
qed

text \<open>
  A successful calculation (average 5, trend \<^verbatim>\<open>improving\<close>) over the history 60, 58, 55
  leaves exactly that history.
\<close>

theorem cohort_never_writes_history_witness:
  "redis_lists (fst (calculate_cohort_risk (world_with_history [Num 60, Num 58, Num 55])
                       cohort_two_users)) ''cohort_risk_history:c1''
     = [Num 60, Num 58, Num 55]
   \<and> snd (calculate_cohort_risk (world_with_history [Num 60, Num 58, Num 55]) cohort_two_users)
     = Inr (Success \<lparr>res_cohort_id = ''c1'', res_average_risk_score = 5,
                     res_high_risk_users = 0, res_total_users = 2,
                     res_risk_trend = Improving, res_recommendations = []\<rparr>)"
proof -
  let ?w = "world_with_history [Num 60, Num 58, Num 55]"
  have r: "redis_client ?w"
    by (simp add: world_with_history_def example_world_def)
  have g: "\<And>u. snd (get_user_metrics ?w u ''o1'') = Inr Map.empty"
    by (simp add: get_user_metrics_def world_with_history_def example_world_def)
  have u1: "user_score ?w (Some ''o1'') ''u1'' = Some 5"
    using user_score_no_events [OF _ _ r g, of "''u1''"] by simp
  have u2: "user_score ?w (Some ''o1'') ''u2'' = Some 5"
    using user_score_no_events [OF _ _ r g, of "''u2''"] by simp
  have t: "snd (calculate_risk_trend ?w ''c1'' ''o1'' 5) = Inr Improving"
    by (simp add: calculate_risk_trend_def lrange_0_4_def world_with_history_def
          example_world_def Let_def)
  have v: "\<not> falsy (req_cohort_id cohort_two_users)"
    "\<not> falsy (req_cohort_org_id cohort_two_users)"
    by (simp_all add: cohort_two_users_def)
  have "snd (calculate_cohort_risk ?w cohort_two_users)
     = Inr (Success \<lparr>res_cohort_id = ''c1'', res_average_risk_score = 5,
                     res_high_risk_users = 0, res_total_users = 2,
                     res_risk_trend = Improving, res_recommendations = []\<rparr>)"
    unfolding calculate_cohort_risk_valid [OF v, of ?w, THEN conjunct2]
    by (simp add: cohort_two_users_def List.map_filter_simps u1 u2 t mean_def
          generate_cohort_recommendations_def)
  then show ?thesis
    using cohort_never_writes_history [of ?w cohort_two_users]
    by (simp add: world_with_history_def)
qed

text \<open>
  C8. When every per-user calculation of the cohort fails (in particular when
  \<^verbatim>\<open>user_ids\<close> is empty), the cohort calculation returns the failure result with the
  error text \<^verbatim>\<open>No valid user risk scores calculated\<close>, never a score or an average. The
  only other outcome is the \<^verbatim>\<open>ValueError\<close> of the validation, raised before any user
  is looked at when the request lacks \<^verbatim>\<open>cohort_id\<close> or \<^verbatim>\<open>org_id\<close>.
\<close>

theorem cohort_without_scores_fails:
  assumes "\<forall>u\<in>set (req_user_ids data). user_score w (req_cohort_org_id data) u = None"
  shows "snd (calculate_cohort_risk w data) =
     (if falsy (req_cohort_id data) \<or> falsy (req_cohort_org_id data)
      then Inl (ValueError ''cohort_id and org_id are required'')
      else Inr (Failure ''No valid user risk scores calculated''))"
proof (cases "falsy (req_cohort_id data) \<or> falsy (req_cohort_org_id data)")
  case True
  then show ?thesis
    by (simp add: calculate_cohort_risk_invalid)
next
  case False
  have "List.map_filter (user_score w (req_cohort_org_id data)) (req_user_ids data) = []"
    using assms by (rule map_filter_all_None)
  with False show ?thesis
    using calculate_cohort_risk_valid [of data w] by simp
qed

text \<open>Two users, and no ClickHouse client: both calculations raise.\<close>

theorem cohort_without_scores_fails_witness:
  "user_score world_without_clickhouse (Some ''o1'') ''u1'' = None
   \<and> user_score world_without_clickhouse (Some ''o1'') ''u2'' = None
   \<and> snd (calculate_cohort_risk world_without_clickhouse cohort_two_users)
       = Inr (Failure ''No valid user risk scores calculated'')"
proof -
  have n: "\<And>u. user_score world_without_clickhouse (Some ''o1'') u = None"
    by (simp add: user_score_def calculate_user_risk_def get_user_metrics_def
          world_without_clickhouse_def example_world_def)
  then have h: "\<forall>u\<in>set (req_user_ids cohort_two_users).
      user_score world_without_clickhouse (req_cohort_org_id cohort_two_users) u = None"
    by (simp add: cohort_two_users_def)
  show ?thesis
    using n cohort_without_scores_fails [OF h]
    by (simp add: cohort_two_users_def)
qed

text \<open>
  C10. In a successful cohort result, \<^verbatim>\<open>total_users\<close> is the length of the requested
  \<^verbatim>\<open>user_ids\<close>, while the average and the number of high-risk users are taken over the
  scores of the users whose calculation succeeded, of which there is at least one.
\<close>

theorem cohort_success_counts:
  assumes "snd (calculate_cohort_risk w data) = Inr (Success r)"
  shows "res_total_users r = length (req_user_ids data)
   \<and> res_average_risk_score r
       = mean (List.map_filter (user_score w (req_cohort_org_id data)) (req_user_ids data))
   \<and> res_high_risk_users r
       = length (filter (\<lambda>score. score \<ge> risk_thresholds High)
           (List.map_filter (user_score w (req_cohort_org_id data)) (req_user_ids data)))
   \<and> List.map_filter (user_score w (req_cohort_org_id data)) (req_user_ids data) \<noteq> []"
proof (cases "falsy (req_cohort_id data) \<or> falsy (req_cohort_org_id data)")
  case True
  with assms show ?thesis
    by (simp add: calculate_cohort_risk_invalid)
next
  case False
  with assms show ?thesis
    using calculate_cohort_risk_valid [of data w]
    by (auto split: if_splits sum.splits)
qed

text \<open>
  With one valid user and one empty user id the result counts 2 users, and its average
  5 is the one score, not the sum of the scores divided by 2.
\<close>

theorem cohort_success_counts_witness:
  "snd (calculate_cohort_risk example_world cohort_one_invalid)
     = Inr (Success \<lparr>res_cohort_id = ''c1'', res_average_risk_score = 5,
                     res_high_risk_users = 0, res_total_users = 2,
                     res_risk_trend = Stable, res_recommendations = []\<rparr>)
   \<and> List.map_filter (user_score example_world (Some ''o1'')) [''u1'', []] = [5]
   \<and> length (req_user_ids cohort_one_invalid) = 2
   \<and> sum_list [5 :: real] / 2 \<noteq> 5"
proof -
  have r: "redis_client example_world"
    by (simp add: example_world_def)
  have g: "snd (get_user_metrics example_world ''u1'' ''o1'') = Inr Map.empty"
    by (simp add: get_user_metrics_def example_world_def)
  have u1: "user_score example_world (Some ''o1'') ''u1'' = Some 5"
    using user_score_no_events [OF _ _ r g] by simp
  have s: "List.map_filter (user_score example_world (Some ''o1'')) [''u1'', []] = [5]"
    by (simp add: List.map_filter_simps u1 user_score_empty_id)
  have t: "snd (calculate_risk_trend example_world ''c1'' ''o1'' 5) = Inr Stable"
    by (simp add: calculate_risk_trend_def lrange_0_4_def example_world_def Let_def)
  have v: "\<not> falsy (req_cohort_id cohort_one_invalid)"
    "\<not> falsy (req_cohort_org_id cohort_one_invalid)"
    by (simp_all add: cohort_one_invalid_def)
  have h: "snd (calculate_cohort_risk example_world cohort_one_invalid)
     = Inr (Success \<lparr>res_cohort_id = ''c1'', res_average_risk_score = 5,
                     res_high_risk_users = 0, res_total_users = 2,
                     res_risk_trend = Stable, res_recommendations = []\<rparr>)"
    unfolding calculate_cohort_risk_valid [OF v, of example_world, THEN conjunct2]
    by (simp add: cohort_one_invalid_def List.map_filter_simps u1 user_score_empty_id t mean_def
          generate_cohort_recommendations_def)
  show ?thesis
    using h s cohort_success_counts [OF h]
    by (simp add: cohort_one_invalid_def List.map_filter_simps u1 user_score_empty_id)
qed

end
